theory Spec2Isabelle
  imports Complex_Main
begin

section \<open>Data model (models.py)\<close>

text \<open>
  Amounts, balances and rates are SQL \<open>Float\<close> columns and Python floats in the source.
  They are modelled as \<^typ>\<open>real\<close>. Sums and the compound-interest formula are the
  arithmetic the source writes, without IEEE rounding. The single operations whose rounding
  or range a statement below depends on are rounded to the nearest double: the product and
  the quotient of the currency converter, the difference that \<open>update_balance\<close> stores,
  and the conversion of an integer rate to a float. NaN is not modelled, and neither is
  what the code does with an infinity: where a float operation overflows without raising,
  the run of the model ends there with \<open>NonFinite\<close>.
\<close>

subsection \<open>Exceptions\<close>

datatype error =
    ZeroDivisionError
  | TypeError
  | AttributeError
  | ValueError
  | OverflowError
  | RequestException
  | ComplexResult \<comment> \<open>not an exception: the value is a Python \<open>complex\<close>, which the model of floats does not hold\<close>
  | NonFinite \<comment> \<open>not an exception: the value is \<open>inf\<close> or \<open>-inf\<close>, which the model of floats does not hold\<close>

subsection \<open>Floats\<close>

text \<open>
  IEEE 754 binary64, round to nearest, ties to even: a nonzero real with binary exponent e
  (clamped at -1022, below which the subnormal numbers lie) is rounded to the nearest
  multiple of \<open>2 ^ (e - 52)\<close>. A real of magnitude at least \<open>2 ^ 1024 - 2 ^ 970\<close> is
  beyond the largest double and its rounding: the operation overflows.
\<close>

definition round_half_even :: "real \<Rightarrow> int" where
  "round_half_even q =
     (let f = \<lfloor>q\<rfloor>; d = q - of_int f
      in if d < 1 / 2 then f else if 1 / 2 < d then f + 1 else if even f then f else f + 1)"

definition double_round :: "real \<Rightarrow> real" where
  "double_round x =
     (if x = 0 then 0
      else let e = max \<lfloor>log 2 \<bar>x\<bar>\<rfloor> (- 1022); ulp = 2 powi (e - 52)
           in of_int (round_half_even (x / ulp)) * ulp)"

definition overflows :: "real \<Rightarrow> bool" where
  "overflows v \<longleftrightarrow> 2 ^ 1024 - 2 ^ 970 \<le> \<bar>v\<bar>"

definition to_float :: "real \<Rightarrow> error + real" where
  \<comment> \<open>the float result of \<open>+\<close>, \<open>-\<close>, \<open>*\<close> or \<open>/\<close> whose exact value is v: Python gives an infinity on overflow\<close>
  "to_float v = (if overflows v then Inl NonFinite else Inr (double_round v))"


subsection \<open>Dates\<close>

text \<open>
  A \<open>datetime.date\<close> is its three calendar fields. Subtracting two dates gives a
  \<open>timedelta\<close> whose \<open>.days\<close> is the difference of the proleptic Gregorian ordinals
  (\<open>date.toordinal\<close> of the standard library: \<open>_ymd2ord\<close>).
\<close>

record date =
  year :: int
  month :: int
  day :: int

definition is_leap :: "int \<Rightarrow> bool" where
  "is_leap y = (y mod 4 = 0 \<and> (y mod 100 \<noteq> 0 \<or> y mod 400 = 0))"

definition days_before_year :: "int \<Rightarrow> int" where
  "days_before_year yr = (let y = yr - 1 in y * 365 + y div 4 - y div 100 + y div 400)"

definition days_in_month :: "int \<Rightarrow> int \<Rightarrow> int" where
  "days_in_month y m =
     (if m = 2 then (if is_leap y then 29 else 28)
      else if m = 4 \<or> m = 6 \<or> m = 9 \<or> m = 11 then 30 else 31)"

definition days_before_month :: "int \<Rightarrow> int \<Rightarrow> int" where
  "days_before_month y m = (\<Sum>k \<leftarrow> [1..<nat m]. days_in_month y (int k))"

definition toordinal :: "date \<Rightarrow> int" where
  "toordinal d = days_before_year (year d) + days_before_month (year d) (month d) + day d"

definition days_between :: "date \<Rightarrow> date \<Rightarrow> int" where
  \<comment> \<open>\<open>(a - b).days\<close>\<close>
  "days_between a b = toordinal a - toordinal b"

subsection \<open>Rows\<close>

record account =
  acc_id :: int
  acc_user_id :: int
  acc_name :: string
  account_type :: string
  currency :: string
  initial_balance :: real
  display_order :: int

record transaction =
  txn_id :: int
  txn_account_id :: int
  amount :: real
  my_share :: "real option"
  description :: string
  category :: string
  transaction_date :: date

record fixed_deposit =
  fd_id :: int
  fd_account_id :: int
  principal :: real
  interest_rate :: real
  start_date :: date
  maturity_date :: date
  bank_name :: "string option"
  fd_number :: "string option"
  is_matured :: bool

record category_row =
  cat_id :: int
  cat_user_id :: "int option"
  cat_name :: string

record budget =
  budget_id :: int
  budget_user_id :: int
  is_active :: bool

record budget_item =
  item_budget_id :: int
  item_category :: string
  item_amount :: real

text \<open>The persisted state: the tables the operations below read and write.\<close>

record db =
  accounts :: "account list"
  transactions :: "transaction list"
  fixed_deposits :: "fixed_deposit list"
  categories :: "category_row list"
  budgets :: "budget list"
  budget_items :: "budget_item list"

subsection \<open>SQL aggregates\<close>

text \<open>
  \<open>func.sum\<close> over no rows is \<open>NULL\<close>; \<open>func.coalesce(x, 0)\<close> replaces
  \<open>NULL\<close> by its second argument.
\<close>

definition sql_sum :: "real list \<Rightarrow> real option" where
  "sql_sum xs = (if xs = [] then None else Some (sum_list xs))"

definition coalesce :: "real option \<Rightarrow> real \<Rightarrow> real" where
  "coalesce v d = (case v of None \<Rightarrow> d | Some x \<Rightarrow> x)"

subsection \<open>Account\<close>

definition account_transactions :: "db \<Rightarrow> account \<Rightarrow> transaction list" where
  \<comment> \<open>the relationship \<open>Account.transactions\<close>: the rows whose foreign key is this account\<close>
  "account_transactions s a = filter (\<lambda>t. txn_account_id t = acc_id a) (transactions s)"

definition transactions_sum :: "db \<Rightarrow> int \<Rightarrow> real" where
  \<comment> \<open>\<open>query(coalesce(sum(Transaction.amount), 0)).filter(Transaction.account_id == id).scalar()\<close>\<close>
  "transactions_sum s aid =
     coalesce (sql_sum (map amount (filter (\<lambda>t. txn_account_id t = aid) (transactions s)))) 0"

definition current_balance :: "db \<Rightarrow> account \<Rightarrow> real" where
  "current_balance s a = initial_balance a + transactions_sum s (acc_id a)"

subsection \<open>Transaction\<close>

definition personal_amount :: "transaction \<Rightarrow> real" where
  "personal_amount t = (case my_share t of Some s \<Rightarrow> s | None \<Rightarrow> amount t)"

subsection \<open>FixedDeposit\<close>





definition days_to_maturity :: "date \<Rightarrow> fixed_deposit \<Rightarrow> int" where
  \<comment> \<open>the first argument is \<open>date.today()\<close>\<close>
  "days_to_maturity today fd =
     (if is_matured fd then 0
      else let remaining = days_between (maturity_date fd) today in max 0 remaining)"



section \<open>Currency Converter (currency.py)\<close>

text \<open>
  What \<open>response.json()\<close> can return: a JSON number without fraction or exponent is a
  Python \<open>int\<close> (\<open>JInt\<close>), any other number a \<open>float\<close> (\<open>JNum\<close>). An object is
  the list of its members; a lookup takes the first binding of a key.
\<close>

datatype json =
    JNull
  | JBool bool
  | JInt int
  | JNum real
  | JStr string
  | JArr "json list"
  | JObj "(string \<times> json) list"

fun dict_get :: "json \<Rightarrow> string \<Rightarrow> json \<Rightarrow> error + json" where
  \<comment> \<open>\<open>v.get(k, d)\<close>: only a dict has the method\<close>
  "dict_get (JObj kvs) k d = Inr (case map_of kvs k of Some v \<Rightarrow> v | None \<Rightarrow> d)"
| "dict_get _ k d = Inl AttributeError"

text \<open>
  The outcome of \<open>requests.get(...)\<close>: it raises, or it gives a response with a status
  code and a body that \<open>response.json()\<close> parses (\<open>None\<close>: the body is not JSON and
  \<open>json()\<close> raises).
\<close>

record response =
  status_code :: int
  json_body :: "json option"

datatype http_outcome = Raises | Responds response

text \<open>
  What one call observes from outside the process: the clock (\<open>datetime.now()\<close>, in
  microseconds) and the outcome of the request to the rate source.
\<close>

record env =
  now :: int
  api :: http_outcome

record rate_cache =
  rate :: json
  last_updated :: "int option"

text \<open>
  The module's state: the global \<open>_rate_cache\<close>, and the number of HTTP requests sent so
  far (the effect of \<open>requests.get\<close>).
\<close>

record currency_state =
  cache :: rate_cache
  requests_sent :: nat

definition DEFAULT_EXCHANGE_RATE :: real where
  "DEFAULT_EXCHANGE_RATE = 83"

definition initial_currency_state :: currency_state where
  "initial_currency_state =
     \<lparr>cache = \<lparr>rate = JNum DEFAULT_EXCHANGE_RATE, last_updated = None\<rparr>, requests_sent = 0\<rparr>"

definition one_hour :: int where
  "one_hour = 3600 * 1000000"

definition cache_fresh :: "env \<Rightarrow> rate_cache \<Rightarrow> bool" where
  \<comment> \<open>\<open>last_updated\<close> is set and \<open>now - last_updated < timedelta(hours=1)\<close>\<close>
  "cache_fresh e c =
     (case last_updated c of None \<Rightarrow> False | Some lu \<Rightarrow> now e - lu < one_hour)"

text \<open>
  The body of the \<open>try\<close>: \<open>Inl\<close> an exception, \<open>Inr (Some r)\<close> the \<open>return rate\<close>
  inside it, \<open>Inr None\<close> when the status is not 200 and control falls out of the block.
\<close>

definition fetch_rate :: "env \<Rightarrow> currency_state \<Rightarrow> (error + json option) \<times> currency_state" where
  "fetch_rate e st =
     (let st1 = st\<lparr>requests_sent := Suc (requests_sent st)\<rparr> in
      case api e of
        Raises \<Rightarrow> (Inl RequestException, st1)
      | Responds resp \<Rightarrow>
          if status_code resp = 200 then
            (case json_body resp of
               None \<Rightarrow> (Inl ValueError, st1)
             | Some data \<Rightarrow>
                 (case dict_get data ''rates'' (JObj []) of
                    Inl err \<Rightarrow> (Inl err, st1)
                  | Inr rates \<Rightarrow>
                      (case dict_get rates ''INR'' (JNum DEFAULT_EXCHANGE_RATE) of
                         Inl err \<Rightarrow> (Inl err, st1)
                       | Inr r \<Rightarrow>
                           (Inr (Some r),
                            st1\<lparr>cache := \<lparr>rate = r, last_updated = Some (now e)\<rparr>\<rparr>))))
          else (Inr None, st1))"

definition get_exchange_rate :: "env \<Rightarrow> currency_state \<Rightarrow> json \<times> currency_state" where
  "get_exchange_rate e st =
     (if cache_fresh e (cache st) then (rate (cache st), st)
      else case fetch_rate e st of
             (Inr (Some r), st') \<Rightarrow> (r, st')
           | (Inr None, st') \<Rightarrow> (rate (cache st'), st')
           | (Inl err, st') \<Rightarrow> (rate (cache st'), st'))"

text \<open>
  \<open>amount * rate\<close> and \<open>amount / rate\<close> with a float on the left. The right operand
  is first made a float: a float is taken as it is, a \<open>bool\<close> is 0 or 1, an \<open>int\<close> is
  rounded to a float or raises \<open>OverflowError\<close> when it is too large, anything else
  is a \<open>TypeError\<close>. Dividing by zero raises.
\<close>

fun as_float :: "json \<Rightarrow> error + real" where
  "as_float (JNum x) = Inr x"
| "as_float (JInt n) =
     (if overflows (of_int n) then Inl OverflowError else Inr (double_round (of_int n)))"
| "as_float (JBool b) = Inr (if b then 1 else 0)"
| "as_float _ = Inl TypeError"

definition float_mul :: "real \<Rightarrow> json \<Rightarrow> error + real" where
  "float_mul a v = (case as_float v of Inl err \<Rightarrow> Inl err | Inr x \<Rightarrow> to_float (a * x))"

definition float_truediv :: "real \<Rightarrow> json \<Rightarrow> error + real" where
  "float_truediv a v =
     (case as_float v of
        Inl err \<Rightarrow> Inl err
      | Inr x \<Rightarrow> if x = 0 then Inl ZeroDivisionError else to_float (a / x))"

definition convert_currency ::
  "env \<Rightarrow> currency_state \<Rightarrow> real \<Rightarrow> string \<Rightarrow> string \<Rightarrow> (error + real) \<times> currency_state" where
  "convert_currency e st amt from_currency to_currency =
     (if from_currency = to_currency then (Inr amt, st)
      else case get_exchange_rate e st of
        (r, st') \<Rightarrow>
          if from_currency = ''USD'' \<and> to_currency = ''INR'' then (float_mul amt r, st')
          else if from_currency = ''INR'' \<and> to_currency = ''USD'' then (float_truediv amt r, st')
          else (Inr amt, st'))"

subsection \<open>Outcomes of the request, by what the code makes of them\<close>

fun is_dict :: "json \<Rightarrow> bool" where
  "is_dict (JObj kvs) = True"
| "is_dict _ = False"

fun members :: "json \<Rightarrow> (string \<times> json) list" where
  "members (JObj kvs) = kvs"
| "members _ = []"

definition lookup_or :: "json \<Rightarrow> string \<Rightarrow> json \<Rightarrow> json" where
  "lookup_or v k d = (case map_of (members v) k of Some x \<Rightarrow> x | None \<Rightarrow> d)"

text \<open>
  The rate a request yields, if any: the response has status 200, its body is a JSON
  object, and \<open>rates\<close> is absent or an object.
\<close>

definition payload_rate :: "http_outcome \<Rightarrow> json option" where
  "payload_rate out =
     (case out of
        Raises \<Rightarrow> None
      | Responds resp \<Rightarrow>
          if status_code resp \<noteq> 200 then None
          else (case json_body resp of
                  None \<Rightarrow> None
                | Some data \<Rightarrow>
                    if \<not> is_dict data then None
                    else let rates = lookup_or data ''rates'' (JObj []) in
                      if \<not> is_dict rates then None
                      else Some (lookup_or rates ''INR'' (JNum 83))))"

text \<open>
  A fetch failure: a network error, a status other than 200, a body that is not JSON or
  not an object, or a \<open>rates\<close> member that is not an object.
\<close>

definition fetch_fails :: "env \<Rightarrow> bool" where
  "fetch_fails e =
     (case api e of
        Raises \<Rightarrow> True
      | Responds resp \<Rightarrow>
          status_code resp \<noteq> 200 \<or>
          (case json_body resp of
             None \<Rightarrow> True
           | Some data \<Rightarrow>
               \<not> is_dict data \<or>
               (case map_of (members data) ''rates'' of
                  None \<Rightarrow> False
                | Some v \<Rightarrow> \<not> is_dict v)))"

text \<open>
  A well-formed answer without the rate: status 200 and a JSON object that has no
  \<open>rates\<close> member, or whose \<open>rates\<close> object has no \<open>INR\<close> member.
\<close>

definition payload_lacks_rate :: "env \<Rightarrow> bool" where
  "payload_lacks_rate e =
     (case api e of
        Raises \<Rightarrow> False
      | Responds resp \<Rightarrow>
          status_code resp = 200 \<and>
          (case json_body resp of
             None \<Rightarrow> False
           | Some data \<Rightarrow>
               is_dict data \<and>
               (case map_of (members data) ''rates'' of
                  None \<Rightarrow> True
                | Some v \<Rightarrow> is_dict v \<and> map_of (members v) ''INR'' = None)))"

section \<open>Request handlers (app.py)\<close>

text \<open>
  A handler runs for the logged-in user \<open>uid\<close> on the persisted state and answers with a
  reply; an exception that escapes it leaves the persisted state as it was at the last
  commit. A form is the data of its fields after WTForms has parsed them: a float or
  date field that was left empty or did not parse is \<open>None\<close>.
\<close>

datatype http_method = GET | POST

datatype reply =
    NotFound \<comment> \<open>404\<close>
  | Rejected string \<comment> \<open>redirect with a warning or danger flash message\<close>
  | Done \<comment> \<open>redirect with the success flash message, after the commit\<close>
  | Rendered \<comment> \<open>the page with the form\<close>

definition next_id :: "int list \<Rightarrow> int" where
  \<comment> \<open>the integer primary key the database gives a new row\<close>
  "next_id ids = fold max ids 0 + 1"

subsection \<open>update\_balance\<close>

record update_balance_form =
  new_balance :: "real option"
  input_currency :: string




subsection \<open>add\_transaction\<close>

definition is_space :: "char \<Rightarrow> bool" where
  "is_space c \<longleftrightarrow> c \<in> {CHR '' '', CHR 0x09, CHR 0x0A, CHR 0x0B, CHR 0x0C, CHR 0x0D}"

definition strip :: "string \<Rightarrow> string" where
  "strip cs = rev (dropWhile is_space (rev (dropWhile is_space cs)))"

definition lower :: "string \<Rightarrow> string" where
  "lower cs =
     map (\<lambda>c. let n = (of_char c :: nat) in if 65 \<le> n \<and> n \<le> 90 then char_of (n + 32) else c) cs"

definition replace_char :: "char \<Rightarrow> char \<Rightarrow> string \<Rightarrow> string" where
  "replace_char a b cs = map (\<lambda>c. if c = a then b else c) cs"

record transaction_form =
  xf_account_id :: int
  xf_transaction_type :: string
  xf_amount :: "real option"
  xf_my_share :: "real option"
  xf_description :: string
  xf_category :: string
  xf_new_category :: string
  xf_transaction_date :: "date option"

definition get_user_categories :: "db \<Rightarrow> int \<Rightarrow> category_row list" where
  "get_user_categories s uid =
     filter (\<lambda>c. cat_user_id c = None) (categories s)
     @ filter (\<lambda>c. cat_user_id c = Some uid) (categories s)"

definition validate_transaction :: "int list \<Rightarrow> string list \<Rightarrow> transaction_form \<Rightarrow> bool" where
  \<comment> \<open>the validators of \<open>TransactionForm\<close>, given the choices of its two select fields\<close>
  "validate_transaction account_choices category_choices f \<longleftrightarrow>
     xf_account_id f \<in> set account_choices \<and> xf_account_id f \<noteq> 0 \<and>
     xf_transaction_type f \<in> {''expense'', ''income''} \<and>
     (case xf_amount f of None \<Rightarrow> False | Some a \<Rightarrow> a \<noteq> 0 \<and> 0.01 \<le> a) \<and>
     strip (xf_description f) \<noteq> [] \<and> length (xf_description f) \<le> 200 \<and>
     xf_category f \<in> set category_choices \<and> xf_category f \<noteq> [] \<and>
     length (xf_new_category f) \<le> 50 \<and>
     xf_transaction_date f \<noteq> None"

definition add_transaction :: "int \<Rightarrow> http_method \<Rightarrow> transaction_form \<Rightarrow> db \<Rightarrow> reply \<times> db" where
  "add_transaction uid method form s =
     (let user_accounts = filter (\<lambda>a. acc_user_id a = uid) (accounts s);
          account_choices = map acc_id user_accounts;
          category_choices = ''__new__'' # map cat_name (get_user_categories s uid)
      in
      if user_accounts = [] then
        (Rejected ''Please create an account first before adding transactions.'', s)
      else if method = POST \<and> validate_transaction account_choices category_choices form then
        (case find (\<lambda>a. acc_id a = xf_account_id form \<and> acc_user_id a = uid) (accounts s) of
           None \<Rightarrow> (Rejected ''Invalid account selected.'', s)
         | Some account \<Rightarrow>
             let new_cat_name = replace_char CHR '' '' CHR ''_'' (lower (strip (xf_new_category form)))
             in
             if xf_category form = ''__new__'' \<and> new_cat_name = [] then
               (Rejected ''Please enter a name for the new category.'', s)
             else
               let existing = find (\<lambda>c. (cat_user_id c = Some uid \<or> cat_user_id c = None)
                                          \<and> cat_name c = new_cat_name) (categories s);
                   s1 = (if xf_category form = ''__new__'' \<and> existing = None
                         then s\<lparr>categories := categories s
                                  @ [\<lparr>cat_id = next_id (map cat_id (categories s)),
                                      cat_user_id = Some uid, cat_name = new_cat_name\<rparr>]\<rparr>
                         else s);
                   category_name = (if xf_category form = ''__new__'' then new_cat_name
                                    else xf_category form);
                   amount0 = \<bar>the (xf_amount form)\<bar>;
                   amount1 = (if xf_transaction_type form = ''expense'' then - amount0 else amount0);
                   my_share1 =
                     (if xf_my_share form \<noteq> None \<and> the (xf_my_share form) \<noteq> 0
                      then let m = \<bar>the (xf_my_share form)\<bar>
                           in Some (if xf_transaction_type form = ''expense'' then - m else m)
                      else None);
                   t = \<lparr>txn_id = next_id (map txn_id (transactions s1)),
                        txn_account_id = xf_account_id form,
                        amount = amount1,
                        my_share = my_share1,
                        description = xf_description form,
                        category = category_name,
                        transaction_date = the (xf_transaction_date form)\<rparr>
               in (Done, s1\<lparr>transactions := transactions s1 @ [t]\<rparr>))
      else (Rendered, s))"

subsection \<open>transfer\<close>

record transfer_form =
  from_account_id :: int
  to_account_id :: int
  tf_amount :: "real option"
  tf_description :: string
  transfer_date :: "date option"

definition validate_transfer :: "int list \<Rightarrow> transfer_form \<Rightarrow> bool" where
  \<comment> \<open>the validators of \<open>TransferForm\<close>, given the choices of its two select fields\<close>
  "validate_transfer account_choices f \<longleftrightarrow>
     from_account_id f \<in> set account_choices \<and> from_account_id f \<noteq> 0 \<and>
     to_account_id f \<in> set account_choices \<and> to_account_id f \<noteq> 0 \<and>
     (case tf_amount f of None \<Rightarrow> False | Some a \<Rightarrow> a \<noteq> 0 \<and> 0.01 \<le> a) \<and>
     length (tf_description f) \<le> 200 \<and>
     transfer_date f \<noteq> None"

definition transfer :: "int \<Rightarrow> http_method \<Rightarrow> transfer_form \<Rightarrow> db \<Rightarrow> reply \<times> db" where
  "transfer uid method form s =
     (let user_accounts = filter (\<lambda>a. acc_user_id a = uid) (accounts s);
          account_choices = map acc_id user_accounts
      in
      if length user_accounts < 2 then
        (Rejected ''You need at least 2 accounts to make a transfer.'', s)
      else if method = POST \<and> validate_transfer account_choices form then
        (let amount0 = \<bar>the (tf_amount form)\<bar>;
             description0 = (if tf_description form = [] then ''Transfer'' else tf_description form);
             date0 = the (transfer_date form)
         in
         if from_account_id form = to_account_id form then
           (Rejected ''Cannot transfer to the same account.'', s)
         else
           case (find (\<lambda>a. acc_id a = from_account_id form \<and> acc_user_id a = uid) (accounts s),
                 find (\<lambda>a. acc_id a = to_account_id form \<and> acc_user_id a = uid) (accounts s)) of
             (Some from_account, Some to_account) \<Rightarrow>
               let outgoing = \<lparr>txn_id = next_id (map txn_id (transactions s)),
                               txn_account_id = from_account_id form,
                               amount = - amount0,
                               my_share = None,
                               description = ''Transfer to '' @ acc_name to_account @ '': '' @ description0,
                               category = ''transfer'',
                               transaction_date = date0\<rparr>;
                   incoming = \<lparr>txn_id = next_id (map txn_id (transactions s)) + 1,
                               txn_account_id = to_account_id form,
                               amount = amount0,
                               my_share = None,
                               description = ''Transfer from '' @ acc_name from_account @ '': '' @ description0,
                               category = ''transfer'',
                               transaction_date = date0\<rparr>
               in (Done, s\<lparr>transactions := transactions s @ [outgoing, incoming]\<rparr>)
           | _ \<Rightarrow> (Rejected ''Invalid account selected.'', s))
      else (Rendered, s))"

subsection \<open>edit\_fixed\_deposit\<close>

record edit_fixed_deposit_form =
  ef_account_id :: int
  ef_bank_name :: string
  ef_fd_number :: string
  ef_is_matured :: string

definition validate_edit_fixed_deposit :: "int list \<Rightarrow> edit_fixed_deposit_form \<Rightarrow> bool" where
  "validate_edit_fixed_deposit account_choices f \<longleftrightarrow>
     ef_account_id f \<in> set account_choices \<and> ef_account_id f \<noteq> 0 \<and>
     length (ef_bank_name f) \<le> 100 \<and>
     length (ef_fd_number f) \<le> 50 \<and>
     ef_is_matured f \<in> {''0'', ''1''}"

definition or_none :: "string \<Rightarrow> string option" where
  \<comment> \<open>\<open>x or None\<close>\<close>
  "or_none x = (if x = [] then None else Some x)"

definition edit_fixed_deposit ::
  "int \<Rightarrow> int \<Rightarrow> http_method \<Rightarrow> edit_fixed_deposit_form \<Rightarrow> db \<Rightarrow> (error + reply) \<times> db" where
  "edit_fixed_deposit uid fdid method form s =
     (case find (\<lambda>f. fd_id f = fdid) (fixed_deposits s) of
        None \<Rightarrow> (Inr NotFound, s)
      | Some fd \<Rightarrow>
          (case find (\<lambda>a. acc_id a = fd_account_id fd) (accounts s) of
             None \<Rightarrow> (Inl AttributeError, s) \<comment> \<open>\<open>fd.account\<close> is \<open>None\<close>\<close>
           | Some account \<Rightarrow>
               if acc_user_id account \<noteq> uid then (Inr (Rejected ''Fixed deposit not found.''), s)
               else
                 let inr_accounts =
                       filter (\<lambda>a. acc_user_id a = uid \<and> currency a = ''INR'') (accounts s)
                 in
                 if method = POST \<and> validate_edit_fixed_deposit (map acc_id inr_accounts) form then
                   (Inr Done,
                    s\<lparr>fixed_deposits :=
                        map (\<lambda>f. if fd_id f = fdid
                                  then f\<lparr>fd_account_id := ef_account_id form,
                                         bank_name := or_none (ef_bank_name form),
                                         fd_number := or_none (ef_fd_number form),
                                         is_matured := (ef_is_matured form = ''1'')\<rparr>
                                  else f)
                            (fixed_deposits s)\<rparr>)
                 else (Inr Rendered, s)))"


subsection \<open>monthly\_report\<close>



















subsection \<open>Notions the statements below use\<close>

text \<open>The columns of a fixed deposit that no form of \<open>edit_fixed_deposit\<close> carries.\<close>

definition frozen_fields :: "fixed_deposit \<Rightarrow> int \<times> real \<times> real \<times> date \<times> date" where
  "frozen_fields f = (fd_id f, principal f, interest_rate f, start_date f, maturity_date f)"










text \<open>
  The round trip of the converter stays within the normal double range: the amount is 0,
  or the amount and its product with the rate have magnitudes between \<open>2 ^ -1021\<close> and
  \<open>2 ^ 1022\<close>, respectively \<open>2 ^ -1022\<close> and \<open>2 ^ 1023\<close>.
\<close>

definition round_trip_in_range :: "real \<Rightarrow> real \<Rightarrow> bool" where
  "round_trip_in_range x r \<longleftrightarrow>
     x = 0 \<or>
     (2 powi (- 1021) \<le> \<bar>x\<bar> \<and> \<bar>x\<bar> \<le> 2 ^ 1022 \<and>
      2 powi (- 1022) \<le> \<bar>x * r\<bar> \<and> \<bar>x * r\<bar> \<le> 2 ^ 1023)"

section \<open>Sample values\<close>

definition two_hours_later :: int where
  "two_hours_later = 2 * one_hour"

definition stale_state :: currency_state where
  \<comment> \<open>a rate of 84.5 fetched at time 0, three requests sent so far\<close>
  "stale_state = \<lparr>cache = \<lparr>rate = JNum 84.5, last_updated = Some 0\<rparr>, requests_sent = 3\<rparr>"

definition env_soon :: env where
  "env_soon = \<lparr>now = 1000, api = Raises\<rparr>"

definition env_network_down :: env where
  "env_network_down = \<lparr>now = two_hours_later, api = Raises\<rparr>"

definition env_error_payload :: env where
  \<comment> \<open>status 200 with the body \<open>{"result": "error"}\<close>\<close>
  "env_error_payload =
     \<lparr>now = two_hours_later,
      api = Responds \<lparr>status_code = 200, json_body = Some (JObj [(''result'', JStr ''error'')])\<rparr>\<rparr>"

definition env_zero_rate :: env where
  \<comment> \<open>status 200 with the body \<open>{"rates": {"INR": 0}}\<close>\<close>
  "env_zero_rate =
     \<lparr>now = 0,
      api = Responds \<lparr>status_code = 200,
                      json_body = Some (JObj [(''rates'', JObj [(''INR'', JInt 0)])])\<rparr>\<rparr>"

definition zero_rate_state :: currency_state where
  "zero_rate_state = \<lparr>cache = \<lparr>rate = JInt 0, last_updated = Some 0\<rparr>, requests_sent = 1\<rparr>"

definition one_year_deposit :: fixed_deposit where
  \<comment> \<open>100000 at 8 percent from 2023-01-01 to 2024-01-01 (365 days), flagged matured\<close>
  "one_year_deposit =
     \<lparr>fd_id = 1, fd_account_id = 2, principal = 100000, interest_rate = 8,
      start_date = \<lparr>year = 2023, month = 1, day = 1\<rparr>,
      maturity_date = \<lparr>year = 2024, month = 1, day = 1\<rparr>,
      bank_name = Some ''SBI'', fd_number = None, is_matured = True\<rparr>"

definition sample_accounts :: "account list" where
  "sample_accounts =
     [\<lparr>acc_id = 1, acc_user_id = 7, acc_name = ''Checking'', account_type = ''checking'',
       currency = ''USD'', initial_balance = 1000, display_order = 0\<rparr>,
      \<lparr>acc_id = 2, acc_user_id = 7, acc_name = ''India'', account_type = ''savings'',
       currency = ''INR'', initial_balance = 250, display_order = 1\<rparr>,
      \<lparr>acc_id = 3, acc_user_id = 7, acc_name = ''Brokerage'', account_type = ''investment'',
       currency = ''USD'', initial_balance = 5000, display_order = 2\<rparr>,
      \<lparr>acc_id = 4, acc_user_id = 8, acc_name = ''Other user'', account_type = ''checking'',
       currency = ''USD'', initial_balance = 0, display_order = 0\<rparr>]"

definition sample_transactions :: "transaction list" where
  "sample_transactions =
     [\<lparr>txn_id = 1, txn_account_id = 1, amount = 500, my_share = None, description = ''Pay'',
       category = ''salary'', transaction_date = \<lparr>year = 2024, month = 3, day = 1\<rparr>\<rparr>,
      \<lparr>txn_id = 2, txn_account_id = 1, amount = - 200, my_share = Some (- 50),
       description = ''Dinner'', category = ''dining'',
       transaction_date = \<lparr>year = 2024, month = 3, day = 9\<rparr>\<rparr>]"

definition sample_db :: db where
  "sample_db = \<lparr>accounts = sample_accounts, transactions = sample_transactions,
                 fixed_deposits = [one_year_deposit],
                 categories = [\<lparr>cat_id = 1, cat_user_id = None, cat_name = ''dining''\<rparr>,
                               \<lparr>cat_id = 2, cat_user_id = None, cat_name = ''salary''\<rparr>],
                 budgets = [\<lparr>budget_id = 1, budget_user_id = 7, is_active = True\<rparr>],
                 budget_items = [\<lparr>item_budget_id = 1, item_category = ''dining'',
                                  item_amount = 300\<rparr>]\<rparr>"

definition zero_share_transaction :: transaction where
  "zero_share_transaction =
     \<lparr>txn_id = 9, txn_account_id = 1, amount = - 100, my_share = Some 0,
      description = ''Gift'', category = ''other'',
      transaction_date = \<lparr>year = 2024, month = 3, day = 20\<rparr>\<rparr>"

definition sample_transaction_form :: transaction_form where
  \<comment> \<open>an expense of 80 with a share of 0 typed into the form\<close>
  "sample_transaction_form =
     \<lparr>xf_account_id = 1, xf_transaction_type = ''expense'', xf_amount = Some 80,
      xf_my_share = Some 0, xf_description = ''Taxi'', xf_category = ''dining'',
      xf_new_category = [], xf_transaction_date = Some \<lparr>year = 2024, month = 3, day = 21\<rparr>\<rparr>"

definition sample_transfer_form :: transfer_form where
  "sample_transfer_form =
     \<lparr>from_account_id = 1, to_account_id = 3, tf_amount = Some 250, tf_description = [],
      transfer_date = Some \<lparr>year = 2024, month = 3, day = 10\<rparr>\<rparr>"

definition sample_balance_form :: update_balance_form where
  "sample_balance_form = \<lparr>new_balance = Some 6000, input_currency = ''USD''\<rparr>"

definition sample_edit_form :: edit_fixed_deposit_form where
  "sample_edit_form =
     \<lparr>ef_account_id = 2, ef_bank_name = ''HDFC'', ef_fd_number = [], ef_is_matured = ''0''\<rparr>"




definition env_later :: env where
  \<comment> \<open>a second call, later within the hour, at which the rate source would answer 90\<close>
  "env_later =
     \<lparr>now = 5000,
      api = Responds \<lparr>status_code = 200,
                      json_body = Some (JObj [(''rates'', JObj [(''INR'', JNum 90)])])\<rparr>\<rparr>"







section \<open>Floats\<close>

lemma round_half_even_error: "\<bar>of_int (round_half_even q) - q\<bar> \<le> 1 / 2"
proof -
  have "of_int \<lfloor>q\<rfloor> \<le> q" "q < of_int \<lfloor>q\<rfloor> + 1" by linarith+
  then show ?thesis by (auto simp: round_half_even_def Let_def)
qed

lemma round_half_even_of_int [simp]: "round_half_even (of_int n) = n"
  by (simp add: round_half_even_def)

lemma two_powi_pos [simp]: "0 < (2::real) powi e"
  by (simp add: power_int_def)

lemma floor_log_powi:
  assumes "x \<noteq> 0"
  shows "(\<lfloor>log 2 \<bar>x\<bar>\<rfloor> = e) \<longleftrightarrow> (2 powi e \<le> \<bar>x\<bar> \<and> \<bar>x\<bar> < 2 powi (e + 1))"
proof -
  have a: "(2::real) powr real_of_int e = 2 powi e"
    by (rule powr_real_of_int') simp_all
  have b: "(2::real) powr real_of_int (e + 1) = 2 powi (e + 1)"
    by (rule powr_real_of_int') simp_all
  from assms floor_log_eq_powr_iff [of "\<bar>x\<bar>" 2 e] show ?thesis
    unfolding a b by simp
qed

lemma double_round_eq:
  assumes "2 powi e \<le> \<bar>x\<bar>" "\<bar>x\<bar> < 2 powi (e + 1)" "- 1022 \<le> e"
  shows "double_round x = of_int (round_half_even (x / 2 powi (e - 52))) * 2 powi (e - 52)"
proof -
  from assms(1) two_powi_pos [of e] have "0 < \<bar>x\<bar>" by linarith
  then have nz: "x \<noteq> 0" by simp
  with assms have "\<lfloor>log 2 \<bar>x\<bar>\<rfloor> = e" by (simp add: floor_log_powi)
  with nz assms(3) show ?thesis by (simp add: double_round_def Let_def max_def)
qed

lemma double_round_error:
  assumes "2 powi (- 1022) \<le> \<bar>x\<bar>"
  shows "\<bar>double_round x - x\<bar> \<le> 2 powi (- 53) * \<bar>x\<bar>"
proof -
  define e where "e = \<lfloor>log 2 \<bar>x\<bar>\<rfloor>"
  from assms two_powi_pos [of "- 1022"] have "0 < \<bar>x\<bar>" by linarith
  then have nz: "x \<noteq> 0" by simp
  from nz e_def have b: "2 powi e \<le> \<bar>x\<bar>" "\<bar>x\<bar> < 2 powi (e + 1)"
    using floor_log_powi [of x e] by simp_all
  have "- 1022 \<le> e"
  proof -
    have "(2::real) powr real_of_int (- 1022) = 2 powi (- 1022)"
      by (rule powr_real_of_int') simp_all
    with assms have "(2::real) powr real_of_int (- 1022) \<le> \<bar>x\<bar>"
      by (simp only:)
    with nz have "real_of_int (- 1022) \<le> log 2 \<bar>x\<bar>"
      by (subst le_log_iff) simp_all
    then show ?thesis unfolding e_def by (simp only: le_floor_iff)
  qed
  define ulp :: real where "ulp = 2 powi (e - 52)"
  have ulp: "0 < ulp" by (simp add: ulp_def)
  have dr: "double_round x = of_int (round_half_even (x / ulp)) * ulp"
    unfolding ulp_def by (rule double_round_eq [OF b \<open>- 1022 \<le> e\<close>])
  have "double_round x - x = (of_int (round_half_even (x / ulp)) - x / ulp) * ulp"
    using ulp by (simp add: dr field_simps)
  then have "\<bar>double_round x - x\<bar> = \<bar>of_int (round_half_even (x / ulp)) - x / ulp\<bar> * ulp"
    using ulp by (simp add: abs_mult)
  also have "\<dots> \<le> (1 / 2) * ulp"
    using round_half_even_error [of "x / ulp"] ulp by (intro mult_right_mono) simp_all
  also have "(1 / 2) * ulp = 2 powi (- 53) * 2 powi e"
  proof -
    have "(2::real) powi (e - 52) = 2 powi e * 2 powi (- 52)"
      using power_int_add [of "2::real" e "- 52"] by simp
    moreover have "(2::real) powi (- 53) = (1 / 2) * 2 powi (- 52)"
      using power_int_add [of "2::real" "- 1" "- 52"] by simp
    ultimately show ?thesis by (simp add: ulp_def)
  qed
  also have "\<dots> \<le> 2 powi (- 53) * \<bar>x\<bar>"
    using b(1) by (intro mult_left_mono) simp_all
  finally show ?thesis .
qed

lemma double_round_zero [simp]: "double_round 0 = 0"
  by (simp add: double_round_def)

lemma not_overflows_le: "\<bar>v\<bar> \<le> 2 ^ 1023 \<Longrightarrow> \<not> overflows v"
proof -
  have "(2::real) ^ 1023 < 2 ^ 1024 - 2 ^ 970" by simp
  then show "\<bar>v\<bar> \<le> 2 ^ 1023 \<Longrightarrow> \<not> overflows v" by (simp add: overflows_def)
qed


lemma not_overflows_zero [simp]: "\<not> overflows 0"
  by (simp add: overflows_def)

lemma double_round_int:
  assumes "\<bar>n\<bar> < 2 ^ 53"
  shows "double_round (of_int n) = of_int n"
proof (cases "n = 0")
  case True
  then show ?thesis by simp
next
  case False
  define x :: real where "x = of_int n"
  define e where "e = \<lfloor>log 2 \<bar>x\<bar>\<rfloor>"
  from False have nz: "x \<noteq> 0" by (simp add: x_def)
  from nz e_def have b: "2 powi e \<le> \<bar>x\<bar>" "\<bar>x\<bar> < 2 powi (e + 1)"
    using floor_log_powi [of x e] by simp_all
  from False have "1 \<le> \<bar>x\<bar>" unfolding x_def by (simp flip: of_int_abs)
  then have "0 \<le> log 2 \<bar>x\<bar>" by simp
  then have e0: "0 \<le> e" unfolding e_def by simp
  from assms have "\<bar>x\<bar> < 2 ^ 53" unfolding x_def
    by (metis of_int_abs of_int_less_numeral_power_cancel_iff)
  with b(1) have "(2::real) powi e < 2 powi 53" by simp
  then have "e < 53" by (rule power_int_le_imp_less_exp [rotated]) simp_all
  define k where "k = nat (52 - e)"
  from \<open>e < 53\<close> have k: "e - 52 = - int k" by (simp add: k_def)
  have ulp: "(2::real) powi (e - 52) = inverse (2 ^ k)"
    unfolding k(1) by (simp add: power_int_minus)
  have q: "x / inverse (2 ^ k) = of_int (n * 2 ^ k)"
    unfolding x_def by (simp add: divide_inverse)
  have "double_round x = of_int (round_half_even (x / 2 powi (e - 52))) * 2 powi (e - 52)"
    using b e0 by (intro double_round_eq) simp_all
  also have "\<dots> = of_int (n * 2 ^ k) * inverse (2 ^ k)"
    by (simp only: ulp q round_half_even_of_int)
  also have "\<dots> = x" by (simp add: x_def)
  finally show ?thesis by (simp add: x_def)
qed



lemma round_trip_error:
  fixes x r :: real
  assumes r: "r \<noteq> 0"
    and rng: "2 powi (- 1021) \<le> \<bar>x\<bar>" "\<bar>x\<bar> \<le> 2 ^ 1022"
      "2 powi (- 1022) \<le> \<bar>x * r\<bar>" "\<bar>x * r\<bar> \<le> 2 ^ 1023"
  shows "\<not> overflows (x * r)"
    and "\<not> overflows (double_round (x * r) / r)"
    and "\<bar>double_round (double_round (x * r) / r) - x\<bar> \<le> 2 powi (- 51) * \<bar>x\<bar>"
proof -
  define u :: real where "u = 2 powi (- 53)"
  define y where "y = double_round (x * r)"
  define a where "a = \<bar>x\<bar>"
  have u: "0 < u" "u \<le> 1 / 2" by (simp_all add: u_def power_int_minus)
  have u4: "4 * u = 2 powi (- 51)"
    using power_int_add [of "2::real" 2 "- 53"] by (simp add: u_def)
  have lo2: "(2::real) powi (- 1021) = 2 * 2 powi (- 1022)"
    using power_int_add [of "2::real" 1 "- 1022"] by simp
  have a0: "0 \<le> a" by (simp add: a_def)
  show o1: "\<not> overflows (x * r)" by (rule not_overflows_le) (rule rng(4))
  have e1: "\<bar>y - x * r\<bar> \<le> u * \<bar>x * r\<bar>"
    unfolding y_def u_def by (rule double_round_error) (rule rng(3))
  have "y / r - x = (y - x * r) / r" using r by (simp add: field_simps)
  then have "\<bar>y / r - x\<bar> = \<bar>y - x * r\<bar> / \<bar>r\<bar>" by (simp add: abs_divide)
  also have "\<dots> \<le> (u * \<bar>x * r\<bar>) / \<bar>r\<bar>"
    using e1 by (rule divide_right_mono) simp
  also have "\<dots> = u * a" using r by (simp add: abs_mult a_def)
  finally have d1: "\<bar>y / r - x\<bar> \<le> u * a" .
  have ua: "u * a \<le> a / 2"
    using mult_right_mono [OF u(2) a0] by simp
  from d1 ua have hi: "\<bar>y / r\<bar> \<le> 2 * a" unfolding a_def by linarith
  from d1 ua have "a / 2 \<le> \<bar>y / r\<bar>" unfolding a_def by linarith
  moreover from rng(1) lo2 have "2 powi (- 1022) \<le> a / 2" by (simp add: a_def)
  ultimately have lo: "2 powi (- 1022) \<le> \<bar>y / r\<bar>" by linarith
  from hi rng(2) have "\<bar>y / r\<bar> \<le> 2 ^ 1023" by (simp add: a_def)
  then show "\<not> overflows (double_round (x * r) / r)"
    unfolding y_def by (rule not_overflows_le)
  have e2: "\<bar>double_round (y / r) - y / r\<bar> \<le> u * \<bar>y / r\<bar>"
    unfolding u_def by (rule double_round_error) (rule lo)
  have "u * \<bar>y / r\<bar> \<le> u * (2 * a)"
    using hi u(1) by (intro mult_left_mono) simp_all
  with e2 have e2': "\<bar>double_round (y / r) - y / r\<bar> \<le> 2 * (u * a)" by simp
  have "0 \<le> u * a" using u(1) a0 by simp
  with e2' d1 have "\<bar>double_round (y / r) - x\<bar> \<le> 4 * u * a" by linarith
  then show "\<bar>double_round (double_round (x * r) / r) - x\<bar> \<le> 2 powi (- 51) * \<bar>x\<bar>"
    unfolding u4 y_def a_def .
qed

section \<open>Balance Calculator\<close>

lemma coalesce_sql_sum: "coalesce (sql_sum xs) 0 = sum_list xs"
  by (simp add: coalesce_def sql_sum_def)

text \<open>
  C1. For every account, the current balance is the initial balance plus the sum of the
  amounts of the account's transactions; an account with no transactions has its initial
  balance as current balance.
\<close>

theorem current_balance_is_initial_plus_sum:
  "current_balance s a = initial_balance a + (\<Sum>t \<leftarrow> account_transactions s a. amount t)
   \<and> (account_transactions s a = [] \<longrightarrow> current_balance s a = initial_balance a)"
  by (simp add: current_balance_def transactions_sum_def account_transactions_def
      coalesce_sql_sum)


theorem current_balance_is_initial_plus_sum_witness:
  "account_transactions sample_db (sample_accounts ! 1) = []
   \<and> current_balance sample_db (sample_accounts ! 1) = 250
   \<and> current_balance sample_db (sample_accounts ! 0) = 1300"
  using current_balance_is_initial_plus_sum [of sample_db "sample_accounts ! 1"]
    current_balance_is_initial_plus_sum [of sample_db "sample_accounts ! 0"]
  by (simp add: sample_db_def sample_accounts_def sample_transactions_def
      account_transactions_def)

section \<open>Fixed Deposit Valuator\<close>








text \<open>
  C9. For every fixed deposit and every value of today's date, the days to maturity are
  at least 0, and they are 0 whenever the deposit is flagged matured.
\<close>

theorem days_to_maturity_nonneg:
  "0 \<le> days_to_maturity today fd \<and> (is_matured fd \<longrightarrow> days_to_maturity today fd = 0)"
  by (simp add: days_to_maturity_def Let_def)

theorem days_to_maturity_nonneg_witness:
  "is_matured one_year_deposit
   \<and> days_to_maturity \<lparr>year = 2023, month = 6, day = 1\<rparr> one_year_deposit = 0
   \<and> days_to_maturity \<lparr>year = 2023, month = 12, day = 22\<rparr>
        (one_year_deposit\<lparr>is_matured := False\<rparr>) = 10
   \<and> days_to_maturity \<lparr>year = 2024, month = 2, day = 1\<rparr>
        (one_year_deposit\<lparr>is_matured := False\<rparr>) = 0"
  using days_to_maturity_nonneg [of "\<lparr>year = 2023, month = 6, day = 1\<rparr>" one_year_deposit]
  by (simp add: one_year_deposit_def days_to_maturity_def days_between_def toordinal_def
      days_before_year_def days_before_month_def days_in_month_def is_leap_def upt_rec)

section \<open>Currency Converter\<close>

lemma dict_get_eq:
  "dict_get v k d = (if is_dict v then Inr (lookup_or v k d) else Inl AttributeError)"
  by (cases v) (simp_all add: lookup_or_def)

lemma fetch_rate_some:
  assumes "payload_rate (api e) = Some r"
  shows "fetch_rate e st =
     (Inr (Some r), \<lparr>cache = \<lparr>rate = r, last_updated = Some (now e)\<rparr>,
               requests_sent = Suc (requests_sent st)\<rparr>)"
proof (cases "api e")
  case Raises
  with assms show ?thesis by (simp add: payload_rate_def)
next
  case (Responds resp)
  show ?thesis
  proof (cases "json_body resp")
    case None
    with assms Responds show ?thesis by (simp add: payload_rate_def split: if_splits)
  next
    case (Some data)
    with assms Responds show ?thesis
      by (simp add: payload_rate_def fetch_rate_def dict_get_eq Let_def DEFAULT_EXCHANGE_RATE_def
          split: if_splits)
  qed
qed

lemma fetch_rate_none:
  assumes "payload_rate (api e) = None"
  shows "snd (fetch_rate e st) = st\<lparr>requests_sent := Suc (requests_sent st)\<rparr>
     \<and> (\<forall>r. fst (fetch_rate e st) \<noteq> Inr (Some r))"
proof (cases "api e")
  case Raises
  then show ?thesis by (simp add: fetch_rate_def)
next
  case (Responds resp)
  show ?thesis
  proof (cases "json_body resp")
    case None
    with Responds show ?thesis by (simp add: fetch_rate_def Let_def)
  next
    case (Some data)
    with assms Responds show ?thesis
      by (simp add: payload_rate_def fetch_rate_def dict_get_eq Let_def split: if_splits)
  qed
qed

lemma get_exchange_rate_eq:
  "get_exchange_rate e st =
     (if cache_fresh e (cache st) then (rate (cache st), st)
      else case payload_rate (api e) of
        None \<Rightarrow> (rate (cache st), st\<lparr>requests_sent := Suc (requests_sent st)\<rparr>)
      | Some r \<Rightarrow> (r, \<lparr>cache = \<lparr>rate = r, last_updated = Some (now e)\<rparr>,
               requests_sent = Suc (requests_sent st)\<rparr>))"
proof (cases "payload_rate (api e)")
  case None
  obtain r st' where f: "fetch_rate e st = (r, st')" by (cases "fetch_rate e st")
  with fetch_rate_none [OF None, of st]
  have "st' = st\<lparr>requests_sent := Suc (requests_sent st)\<rparr>" "\<forall>v. r \<noteq> Inr (Some v)"
    by simp_all
  with f None show ?thesis
    by (simp add: get_exchange_rate_def split: sum.splits option.splits)
next
  case (Some r)
  then show ?thesis by (simp add: get_exchange_rate_def fetch_rate_some)
qed

lemma fetch_fails_payload: "fetch_fails e \<Longrightarrow> payload_rate (api e) = None"
  by (cases "api e")
     (auto simp: fetch_fails_def payload_rate_def lookup_or_def Let_def split: option.splits)

lemma payload_lacks_rate_payload: "payload_lacks_rate e \<Longrightarrow> payload_rate (api e) = Some (JNum 83)"
  by (cases "api e")
     (auto simp: payload_lacks_rate_def payload_rate_def lookup_or_def Let_def split: option.splits)

lemma fresh_after_update:
  "cache_fresh e \<lparr>rate = r, last_updated = Some (now e)\<rparr>"
  by (simp add: cache_fresh_def one_hour_def)

lemma get_exchange_rate_again:
  "fst (get_exchange_rate e (snd (get_exchange_rate e st))) = fst (get_exchange_rate e st)"
  by (cases "payload_rate (api e)") (simp_all add: get_exchange_rate_eq fresh_after_update)

lemma fetch_raises_payload:
  assumes "fst (fetch_rate e st) = Inl err"
  shows "payload_rate (api e) = None"
proof (cases "payload_rate (api e)")
  case (Some r)
  from fetch_rate_some [OF Some, of st] assms show ?thesis by simp
qed simp

text \<open>
  C8. \<open>get_exchange_rate\<close> returns the cached rate without sending a request when the
  cache is less than one hour old. When the cache is older or was never filled and
  the fetch fails (network error, status other than 200, a body that is not JSON or not
  an object, a \<open>rates\<close> member that is not an object), it keeps the cache and returns
  the cached rate, which is the default 83 when nothing was ever fetched. A status 200
  answer whose object lacks \<open>rates\<close> or \<open>INR\<close> makes it return the default 83 and
  store it in the cache with the current time. An exception raised while fetching is
  never passed on: the cached rate is returned.
\<close>

theorem get_exchange_rate_policy:
  "(cache_fresh e (cache st) \<longrightarrow> get_exchange_rate e st = (rate (cache st), st))
   \<and> (\<not> cache_fresh e (cache st) \<and> fetch_fails e \<longrightarrow>
        get_exchange_rate e st = (rate (cache st), st\<lparr>requests_sent := Suc (requests_sent st)\<rparr>))
   \<and> (\<not> cache_fresh e (cache st) \<and> payload_lacks_rate e \<longrightarrow>
        get_exchange_rate e st =
          (JNum 83, \<lparr>cache = \<lparr>rate = JNum 83, last_updated = Some (now e)\<rparr>,
                     requests_sent = Suc (requests_sent st)\<rparr>))
   \<and> (fetch_fails e \<longrightarrow>
        get_exchange_rate e initial_currency_state
          = (JNum 83, initial_currency_state\<lparr>requests_sent := 1\<rparr>))
   \<and> (\<not> cache_fresh e (cache st) \<and> fst (fetch_rate e st) = Inl err \<longrightarrow>
        fst (get_exchange_rate e st) = rate (cache st))"
proof (intro conjI impI)
  assume "cache_fresh e (cache st)"
  then show "get_exchange_rate e st = (rate (cache st), st)"
    by (simp add: get_exchange_rate_eq)
next
  assume "\<not> cache_fresh e (cache st) \<and> fetch_fails e"
  then show "get_exchange_rate e st = (rate (cache st), st\<lparr>requests_sent := Suc (requests_sent st)\<rparr>)"
    by (simp add: get_exchange_rate_eq fetch_fails_payload)
next
  assume "\<not> cache_fresh e (cache st) \<and> payload_lacks_rate e"
  then show "get_exchange_rate e st =
          (JNum 83, \<lparr>cache = \<lparr>rate = JNum 83, last_updated = Some (now e)\<rparr>,
                     requests_sent = Suc (requests_sent st)\<rparr>)"
    by (simp add: get_exchange_rate_eq payload_lacks_rate_payload)
next
  assume "fetch_fails e"
  then show "get_exchange_rate e initial_currency_state
          = (JNum 83, initial_currency_state\<lparr>requests_sent := 1\<rparr>)"
    by (simp add: get_exchange_rate_eq fetch_fails_payload initial_currency_state_def
        cache_fresh_def DEFAULT_EXCHANGE_RATE_def)
next
  assume "\<not> cache_fresh e (cache st) \<and> fst (fetch_rate e st) = Inl err"
  then show "fst (get_exchange_rate e st) = rate (cache st)"
    by (simp add: get_exchange_rate_eq fetch_raises_payload [of e st err])
qed

theorem get_exchange_rate_policy_witness:
  "cache_fresh env_soon (cache stale_state)
   \<and> get_exchange_rate env_soon stale_state = (JNum 84.5, stale_state)
   \<and> \<not> cache_fresh env_network_down (cache stale_state) \<and> fetch_fails env_network_down
   \<and> get_exchange_rate env_network_down stale_state = (JNum 84.5, stale_state\<lparr>requests_sent := 4\<rparr>)
   \<and> payload_lacks_rate env_error_payload
   \<and> fst (get_exchange_rate env_error_payload stale_state) = JNum 83
   \<and> get_exchange_rate env_network_down initial_currency_state
       = (JNum 83, initial_currency_state\<lparr>requests_sent := 1\<rparr>)
   \<and> fst (fetch_rate env_network_down stale_state) = Inl RequestException"
  using get_exchange_rate_policy [of env_soon stale_state]
    get_exchange_rate_policy [of env_network_down stale_state RequestException]
    get_exchange_rate_policy [of env_error_payload stale_state]
  by (simp add: env_soon_def env_network_down_def env_error_payload_def stale_state_def
      cache_fresh_def one_hour_def two_hours_later_def fetch_fails_def payload_lacks_rate_def
      fetch_rate_def)

text \<open>
  With a cached rate of 84.5 that is two hours old, the answer \<open>{"result": "error"}\<close>
  with status 200 replaces the cached rate by 83.
\<close>

theorem stale_rate_replaced_by_default_counterexample:
  "\<not> cache_fresh env_error_payload (cache stale_state)
   \<and> rate (cache stale_state) = JNum 84.5
   \<and> get_exchange_rate env_error_payload stale_state
       = (JNum 83, \<lparr>cache = \<lparr>rate = JNum 83, last_updated = Some two_hours_later\<rparr>,
                    requests_sent = 4\<rparr>)"
  by (simp add: get_exchange_rate_def fetch_rate_def env_error_payload_def stale_state_def
      cache_fresh_def one_hour_def two_hours_later_def DEFAULT_EXCHANGE_RATE_def)

lemma convert_usd_inr:
  assumes "as_float (fst (get_exchange_rate e st)) = Inr r"
  shows "convert_currency e st x ''USD'' ''INR'' = (to_float (x * r), snd (get_exchange_rate e st))"
  using assms by (cases "get_exchange_rate e st") (simp add: convert_currency_def float_mul_def)

lemma convert_inr_usd:
  assumes "as_float (fst (get_exchange_rate e st)) = Inr r"
  shows "convert_currency e st x ''INR'' ''USD''
    = (if r = 0 then Inl ZeroDivisionError else to_float (x / r), snd (get_exchange_rate e st))"
  using assms by (cases "get_exchange_rate e st") (simp add: convert_currency_def float_truediv_def)

lemma stale_state_soon:
  "get_exchange_rate env_soon stale_state = (JNum 84.5, stale_state)"
  by (simp add: get_exchange_rate_def env_soon_def stale_state_def cache_fresh_def one_hour_def)

text \<open>
  C7. Converting between equal currencies returns the amount unchanged, whatever the
  rate. When the rate look-up of a conversion from INR to USD returns 0, the conversion
  raises \<open>ZeroDivisionError\<close> for every amount. When the look-ups of both conversions of
  a round trip return the same rate r other than 0, and the amount x is 0 or x and x * r
  lie in the normal range of the doubles, converting x from USD to INR gives the double
  nearest to x * r, converting that back to USD gives the double nearest to its quotient
  by r, and this differs from x by at most \<open>2 ^ -51 * |x|\<close>.
\<close>

theorem round_trip:
  "convert_currency e st x c c = (Inr x, st)
   \<and> (as_float (fst (get_exchange_rate e0 st0)) = Inr 0 \<longrightarrow>
        convert_currency e0 st0 x ''INR'' ''USD''
          = (Inl ZeroDivisionError, snd (get_exchange_rate e0 st0)))
   \<and> (as_float (fst (get_exchange_rate e1 st1)) = Inr r
       \<and> as_float (fst (get_exchange_rate e2 (snd (get_exchange_rate e1 st1)))) = Inr r
       \<and> r \<noteq> 0 \<and> round_trip_in_range x r \<longrightarrow>
        convert_currency e1 st1 x ''USD'' ''INR''
          = (Inr (double_round (x * r)), snd (get_exchange_rate e1 st1))
        \<and> convert_currency e2 (snd (get_exchange_rate e1 st1)) (double_round (x * r)) ''INR'' ''USD''
          = (Inr (double_round (double_round (x * r) / r)),
             snd (get_exchange_rate e2 (snd (get_exchange_rate e1 st1))))
        \<and> \<bar>double_round (double_round (x * r) / r) - x\<bar> \<le> 2 powi (- 51) * \<bar>x\<bar>)"
proof (intro conjI impI)
  show "convert_currency e st x c c = (Inr x, st)"
    by (simp add: convert_currency_def)
next
  assume "as_float (fst (get_exchange_rate e0 st0)) = Inr 0"
  from convert_inr_usd [OF this]
  show "convert_currency e0 st0 x ''INR'' ''USD''
      = (Inl ZeroDivisionError, snd (get_exchange_rate e0 st0))"
    by simp
next
  assume h: "as_float (fst (get_exchange_rate e1 st1)) = Inr r
       \<and> as_float (fst (get_exchange_rate e2 (snd (get_exchange_rate e1 st1)))) = Inr r
       \<and> r \<noteq> 0 \<and> round_trip_in_range x r"
  then have r: "r \<noteq> 0" by simp
  have facts: "\<not> overflows (x * r) \<and> \<not> overflows (double_round (x * r) / r)
      \<and> \<bar>double_round (double_round (x * r) / r) - x\<bar> \<le> 2 powi (- 51) * \<bar>x\<bar>"
  proof (cases "x = 0")
    case True
    then show ?thesis by simp
  next
    case False
    with h have rng: "2 powi (- 1021) \<le> \<bar>x\<bar>" "\<bar>x\<bar> \<le> 2 ^ 1022"
      "2 powi (- 1022) \<le> \<bar>x * r\<bar>" "\<bar>x * r\<bar> \<le> 2 ^ 1023"
      by (simp_all add: round_trip_in_range_def)
    from round_trip_error [OF r rng] show ?thesis by simp
  qed
  from h convert_usd_inr [of e1 st1 r x] facts
  show "convert_currency e1 st1 x ''USD'' ''INR''
          = (Inr (double_round (x * r)), snd (get_exchange_rate e1 st1))"
    by (simp add: to_float_def)
  from h convert_inr_usd [of e2 "snd (get_exchange_rate e1 st1)" r "double_round (x * r)"] facts
  show "convert_currency e2 (snd (get_exchange_rate e1 st1)) (double_round (x * r)) ''INR'' ''USD''
          = (Inr (double_round (double_round (x * r) / r)),
             snd (get_exchange_rate e2 (snd (get_exchange_rate e1 st1))))"
    by (simp add: to_float_def)
  from facts show "\<bar>double_round (double_round (x * r) / r) - x\<bar> \<le> 2 powi (- 51) * \<bar>x\<bar>"
    by simp
qed

theorem round_trip_witness:
  "convert_currency env_soon stale_state (- 100) ''INR'' ''INR'' = (Inr (- 100), stale_state)
   \<and> as_float (fst (get_exchange_rate env_zero_rate initial_currency_state)) = Inr 0
   \<and> convert_currency env_zero_rate initial_currency_state (- 100) ''INR'' ''USD''
       = (Inl ZeroDivisionError, zero_rate_state)
   \<and> as_float (fst (get_exchange_rate env_soon stale_state)) = Inr 84.5
   \<and> as_float (fst (get_exchange_rate env_later (snd (get_exchange_rate env_soon stale_state))))
       = Inr 84.5
   \<and> (84.5 :: real) \<noteq> 0 \<and> round_trip_in_range (- 100) 84.5
   \<and> convert_currency env_soon stale_state (- 100) ''USD'' ''INR'' = (Inr (- 8450), stale_state)
   \<and> convert_currency env_later stale_state (- 8450) ''INR'' ''USD'' = (Inr (- 100), stale_state)"
proof -
  have z: "get_exchange_rate env_zero_rate initial_currency_state = (JInt 0, zero_rate_state)"
    by (simp add: get_exchange_rate_def fetch_rate_def env_zero_rate_def
        initial_currency_state_def zero_rate_state_def cache_fresh_def)
  have l: "get_exchange_rate env_later stale_state = (JNum 84.5, stale_state)"
    by (simp add: get_exchange_rate_def env_later_def stale_state_def cache_fresh_def one_hour_def)
  have rng: "round_trip_in_range (- 100) 84.5"
    by (simp add: round_trip_in_range_def power_int_minus)
  have d1: "double_round (- 8450) = - 8450" using double_round_int [of "- 8450"] by simp
  have d2: "double_round (- 100) = - 100" using double_round_int [of "- 100"] by simp
  from round_trip [of env_soon stale_state "- 100" "''INR''" env_zero_rate initial_currency_state
      env_soon stale_state "84.5" env_later] rng
  show ?thesis by (simp add: z l stale_state_soon d1 d2)
qed

text \<open>
  With a fetched rate of 0, 100 USD become 0 INR, and converting those back raises
  \<open>ZeroDivisionError\<close>. At the rate 84.5, the product of the finite double
  \<open>2 ^ 1023\<close> with the rate is beyond the doubles: the conversion to INR gives an
  infinity.
\<close>

theorem zero_rate_round_trip_counterexample:
  "convert_currency env_zero_rate initial_currency_state 100 ''USD'' ''INR'' = (Inr 0, zero_rate_state)
   \<and> convert_currency env_zero_rate zero_rate_state 0 ''INR'' ''USD''
       = (Inl ZeroDivisionError, zero_rate_state)
   \<and> convert_currency env_soon stale_state (2 ^ 1023) ''USD'' ''INR'' = (Inl NonFinite, stale_state)"
proof -
  have a: "convert_currency env_zero_rate initial_currency_state 100 ''USD'' ''INR''
      = (Inr 0, zero_rate_state)"
    by (simp add: convert_currency_def get_exchange_rate_def fetch_rate_def env_zero_rate_def
        initial_currency_state_def zero_rate_state_def cache_fresh_def float_mul_def to_float_def)
  have b: "convert_currency env_zero_rate zero_rate_state 0 ''INR'' ''USD''
      = (Inl ZeroDivisionError, zero_rate_state)"
    by (simp add: convert_currency_def get_exchange_rate_def env_zero_rate_def
        zero_rate_state_def cache_fresh_def one_hour_def float_truediv_def)
  have c: "convert_currency env_soon stale_state (2 ^ 1023) ''USD'' ''INR''
      = (Inl NonFinite, stale_state)"
    using convert_usd_inr [of env_soon stale_state "84.5" "2 ^ 1023"]
    by (simp add: stale_state_soon to_float_def overflows_def)
  from a b c show ?thesis by simp
qed

section \<open>Request handlers\<close>



lemma sample_transfer_run:
  "transfer 7 POST sample_transfer_form sample_db =
     (Done, sample_db\<lparr>transactions := sample_transactions @
        [\<lparr>txn_id = 3, txn_account_id = 1, amount = - 250, my_share = None,
          description = ''Transfer to Brokerage: Transfer'', category = ''transfer'',
          transaction_date = \<lparr>year = 2024, month = 3, day = 10\<rparr>\<rparr>,
         \<lparr>txn_id = 4, txn_account_id = 3, amount = 250, my_share = None,
          description = ''Transfer from Checking: Transfer'', category = ''transfer'',
          transaction_date = \<lparr>year = 2024, month = 3, day = 10\<rparr>\<rparr>]\<rparr>)"
  by (simp add: transfer_def validate_transfer_def sample_transfer_form_def sample_db_def
      sample_accounts_def sample_transactions_def next_id_def Let_def)

lemma sample_edit_run:
  "edit_fixed_deposit 7 1 POST sample_edit_form sample_db =
     (Inr Done, sample_db\<lparr>fixed_deposits :=
        [one_year_deposit\<lparr>fd_account_id := 2, bank_name := Some ''HDFC'', fd_number := None,
                           is_matured := False\<rparr>]\<rparr>)"
  by (simp add: edit_fixed_deposit_def validate_edit_fixed_deposit_def sample_edit_form_def
      sample_db_def sample_accounts_def one_year_deposit_def or_none_def Let_def)

lemma sample_add_run:
  "add_transaction 7 POST sample_transaction_form sample_db =
     (Done, sample_db\<lparr>transactions := sample_transactions @
        [\<lparr>txn_id = 3, txn_account_id = 1, amount = - 80, my_share = None,
          description = ''Taxi'', category = ''dining'',
          transaction_date = \<lparr>year = 2024, month = 3, day = 21\<rparr>\<rparr>]\<rparr>)"
  by (simp add: add_transaction_def validate_transaction_def sample_transaction_form_def
      sample_db_def sample_accounts_def sample_transactions_def next_id_def Let_def
      get_user_categories_def strip_def is_space_def)

text \<open>
  C5. A transfer that goes through appends exactly two transactions: the outgoing one on
  the source account and the incoming one on the destination account. The outgoing amount
  is the negation of the incoming amount, which is positive; both have category
  \<open>transfer\<close> and the same date. Every other outcome of the handler leaves the persisted
  state unchanged, so the two rows are stored together or not at all.
\<close>

theorem transfer_creates_matched_pair:
  assumes "transfer uid method form s = (r, s')"
  shows "(r = Done \<longrightarrow>
           (\<exists>outgoing incoming.
              transactions s' = transactions s @ [outgoing, incoming]
              \<and> amount outgoing = - amount incoming \<and> 0 < amount incoming
              \<and> category outgoing = ''transfer'' \<and> category incoming = ''transfer''
              \<and> transaction_date outgoing = transaction_date incoming
              \<and> txn_account_id outgoing = from_account_id form
              \<and> txn_account_id incoming = to_account_id form
              \<and> from_account_id form \<noteq> to_account_id form))
       \<and> (r \<noteq> Done \<longrightarrow> s' = s)
       \<and> accounts s' = accounts s \<and> fixed_deposits s' = fixed_deposits s"
proof (cases "method = POST \<and> validate_transfer
    (map acc_id (filter (\<lambda>a. acc_user_id a = uid) (accounts s))) form
    \<and> \<not> length (filter (\<lambda>a. acc_user_id a = uid) (accounts s)) < 2")
  case False
  with assms show ?thesis
    by (auto simp: transfer_def Let_def split: if_splits)
next
  case True
  then obtain a where a: "tf_amount form = Some a" "0.01 \<le> a"
    by (auto simp: validate_transfer_def split: option.splits)
  then have pos: "0 < \<bar>a\<bar>" by simp
  from assms True a pos show ?thesis
    by (auto simp: transfer_def Let_def split: if_splits option.splits)
qed

theorem transfer_creates_matched_pair_witness:
  "fst (transfer 7 POST sample_transfer_form sample_db) = Done
   \<and> length (transactions (snd (transfer 7 POST sample_transfer_form sample_db))) = 4
   \<and> map amount (transactions (snd (transfer 7 POST sample_transfer_form sample_db)))
       = [500, - 200, - 250, 250]"
  using transfer_creates_matched_pair [OF sample_transfer_run] unfolding sample_transfer_run
  by (simp add: sample_db_def sample_transactions_def)

text \<open>
  C10. Whatever the outcome of \<open>edit_fixed_deposit\<close>, every fixed deposit keeps its id,
  principal, interest rate, start date and maturity date; deposits other than the edited
  one are unchanged altogether, and so are the accounts and the transactions.
\<close>

theorem edit_fixed_deposit_frame:
  assumes "edit_fixed_deposit uid fdid method form s = (r, s')"
  shows "map frozen_fields (fixed_deposits s') = map frozen_fields (fixed_deposits s)
     \<and> (\<forall>i < length (fixed_deposits s).
           fd_id (fixed_deposits s ! i) \<noteq> fdid \<longrightarrow> fixed_deposits s' ! i = fixed_deposits s ! i)
     \<and> (r \<noteq> Inr Done \<longrightarrow> s' = s)
     \<and> accounts s' = accounts s \<and> transactions s' = transactions s"
proof (cases "r = Inr Done")
  case False
  with assms have "s' = s"
    by (auto simp: edit_fixed_deposit_def Let_def split: option.splits if_splits)
  with False show ?thesis by simp
next
  case True
  with assms have s': "s' = s\<lparr>fixed_deposits :=
        map (\<lambda>f. if fd_id f = fdid
                  then f\<lparr>fd_account_id := ef_account_id form,
                         bank_name := or_none (ef_bank_name form),
                         fd_number := or_none (ef_fd_number form),
                         is_matured := (ef_is_matured form = ''1'')\<rparr>
                  else f)
            (fixed_deposits s)\<rparr>"
    by (auto simp: edit_fixed_deposit_def Let_def split: option.splits if_splits)
  show ?thesis unfolding s' using True by (simp add: frozen_fields_def comp_def)
qed

theorem edit_fixed_deposit_frame_witness:
  "fst (edit_fixed_deposit 7 1 POST sample_edit_form sample_db) = Inr Done
   \<and> map frozen_fields (fixed_deposits (snd (edit_fixed_deposit 7 1 POST sample_edit_form sample_db)))
       = [(1, 100000, 8, \<lparr>year = 2023, month = 1, day = 1\<rparr>, \<lparr>year = 2024, month = 1, day = 1\<rparr>)]
   \<and> map is_matured (fixed_deposits (snd (edit_fixed_deposit 7 1 POST sample_edit_form sample_db)))
       = [False]
   \<and> map is_matured (fixed_deposits sample_db) = [True]"
  using edit_fixed_deposit_frame [OF sample_edit_run] unfolding sample_edit_run
  by (simp add: sample_db_def one_year_deposit_def frozen_fields_def)

text \<open>
  C3. The personal amount of a transaction is its \<open>my_share\<close> when that is not null and
  its amount otherwise; for every transaction whose \<open>my_share\<close> is not exactly zero this
  is \<open>my_share\<close> when it is not null and not zero, and the amount otherwise. A
  transaction stored by \<open>add_transaction\<close> never has a \<open>my_share\<close> of zero: an empty or
  zero share in the form is stored as null, so the personal amount is the full amount.
\<close>

theorem personal_amount_of_stored_share:
  "personal_amount t = (if my_share t \<noteq> None then the (my_share t) else amount t)
   \<and> (my_share t \<noteq> Some 0 \<longrightarrow>
        personal_amount t
          = (if my_share t \<noteq> None \<and> the (my_share t) \<noteq> 0 then the (my_share t) else amount t))
   \<and> (add_transaction uid method form s = (Done, s') \<longrightarrow>
        (\<exists>new. transactions s' = transactions s @ [new]
           \<and> my_share new \<noteq> Some 0
           \<and> (xf_my_share form = None \<or> xf_my_share form = Some 0 \<longrightarrow>
                my_share new = None \<and> personal_amount new = amount new)
           \<and> (xf_my_share form \<noteq> None \<and> xf_my_share form \<noteq> Some 0 \<longrightarrow>
                personal_amount new = the (my_share new)
                \<and> \<bar>personal_amount new\<bar> = \<bar>the (xf_my_share form)\<bar>)))"
proof (intro conjI impI)
  show "personal_amount t = (if my_share t \<noteq> None then the (my_share t) else amount t)"
    by (simp add: personal_amount_def split: option.splits)
next
  assume "my_share t \<noteq> Some 0"
  then show "personal_amount t
          = (if my_share t \<noteq> None \<and> the (my_share t) \<noteq> 0 then the (my_share t) else amount t)"
    by (auto simp: personal_amount_def split: option.splits)
next
  assume "add_transaction uid method form s = (Done, s')"
  then show "\<exists>new. transactions s' = transactions s @ [new]
           \<and> my_share new \<noteq> Some 0
           \<and> (xf_my_share form = None \<or> xf_my_share form = Some 0 \<longrightarrow>
                my_share new = None \<and> personal_amount new = amount new)
           \<and> (xf_my_share form \<noteq> None \<and> xf_my_share form \<noteq> Some 0 \<longrightarrow>
                personal_amount new = the (my_share new)
                \<and> \<bar>personal_amount new\<bar> = \<bar>the (xf_my_share form)\<bar>)"
    unfolding add_transaction_def Let_def
    by (auto simp: personal_amount_def split: if_splits option.splits)
qed

theorem personal_amount_of_stored_share_witness:
  "fst (add_transaction 7 POST sample_transaction_form sample_db) = Done
   \<and> xf_my_share sample_transaction_form = Some 0
   \<and> map personal_amount (transactions (snd (add_transaction 7 POST sample_transaction_form sample_db)))
       = [500, - 50, - 80]
   \<and> my_share (sample_transactions ! 1) \<noteq> Some 0
   \<and> personal_amount (sample_transactions ! 1) = - 50"
  using personal_amount_of_stored_share [of "sample_transactions ! 1" 7 POST
      sample_transaction_form sample_db "snd (add_transaction 7 POST sample_transaction_form sample_db)"]
  unfolding sample_add_run
  by (simp add: sample_db_def sample_transactions_def personal_amount_def
      sample_transaction_form_def)

text \<open>
  A transaction row with amount -100 and a stored \<open>my_share\<close> of 0 has personal amount 0,
  not -100.
\<close>

theorem zero_share_counterexample:
  "my_share zero_share_transaction = Some 0 \<and> amount zero_share_transaction = - 100
   \<and> personal_amount zero_share_transaction = 0"
  by (simp add: zero_share_transaction_def personal_amount_def)








section \<open>Period Aggregator\<close>



























end
